theory Spec2Isabelle
  imports Main "HOL-Library.Word"
begin

section \<open>Paths\<close>

text \<open>
  The module works on \<^verbatim>\<open>pathlib.Path\<close> values. On a POSIX host a path is a root
  (\<^verbatim>\<open>''\<close>, \<^verbatim>\<open>'/'\<close> or \<^verbatim>\<open>'//'\<close>) and the list of its components. The three operations
  the module uses are the constructor from a string, \<^verbatim>\<open>parent\<close> and the join
  operator \<^verbatim>\<open>/\<close>. They are library code; the definitions below follow the POSIX
  flavour of pathlib (\<^verbatim>\<open>posixpath.splitroot\<close>, then the split at \<^verbatim>\<open>'/'\<close> that drops empty
  and \<^verbatim>\<open>'.'\<close> components and keeps \<^verbatim>\<open>'..'\<close>).
\<close>

datatype Path = Path (root: string) (tail: "string list")

text \<open>\<^verbatim>\<open>s.split(sep)\<close> for a separator of one character.\<close>

fun str_split :: "char \<Rightarrow> string \<Rightarrow> string list" where
  "str_split sep [] = [[]]"
| "str_split sep (c # cs) =
     (if c = sep then [] # str_split sep cs
      else (case str_split sep cs of [] \<Rightarrow> [[c]] | x # xs \<Rightarrow> (c # x) # xs))"

text \<open>\<^verbatim>\<open>posixpath.splitroot\<close> without the (always empty) drive: the root and the rest.\<close>

definition splitroot :: "string \<Rightarrow> string \<times> string" where
  "splitroot p =
     (if take 1 p \<noteq> ''/'' then ([], p)
      else if take 1 (drop 1 p) \<noteq> ''/'' \<or> take 1 (drop 2 p) = ''/'' then (''/'', drop 1 p)
      else (take 2 p, drop 2 p))"

text \<open>
  The components of the part after the root:
  \<^verbatim>\<open>[x for x in rel.split('/') if x and x != '.']\<close>.
\<close>

definition comps :: "string \<Rightarrow> string list" where
  "comps rel = filter (\<lambda>x. x \<noteq> [] \<and> x \<noteq> ''.'') (str_split (CHR ''/'') rel)"

text \<open>\<^verbatim>\<open>Path(s)\<close>: the parsed form of a string.\<close>

definition PurePosixPath :: "string \<Rightarrow> Path" where
  "PurePosixPath s = (case splitroot s of (r, rel) \<Rightarrow> Path r (comps rel))"

text \<open>\<^verbatim>\<open>p.parent\<close>: a path with no component is its own parent.\<close>

definition parent :: "Path \<Rightarrow> Path" where
  "parent p = (if tail p = [] then p else Path (root p) (butlast (tail p)))"

text \<open>
  \<^verbatim>\<open>p / key\<close> for a string \<^verbatim>\<open>key\<close>: an absolute \<^verbatim>\<open>key\<close> replaces \<^verbatim>\<open>p\<close>, a relative one
  appends its components.
\<close>

definition truediv :: "Path \<Rightarrow> string \<Rightarrow> Path" where
  "truediv p key =
     (let q = PurePosixPath key in
      if root q \<noteq> [] then q else Path (root p) (tail p @ tail q))"

text \<open>
  \<^verbatim>\<open>os.path.join(a, b)\<close> on strings, the join of the host platform:
  \<^verbatim>\<open>
  path = a
  if b.startswith('/') or not path:
      path = b
  elif path.endswith('/'):
      path += b
  else:
      path += '/' + b
  \<close>
\<close>

definition posixpath_join :: "string \<Rightarrow> string \<Rightarrow> string" where
  "posixpath_join a b =
     (if take 1 b = ''/'' \<or> a = [] then b
      else if last a = CHR ''/'' then a @ b
      else a @ ''/'' @ b)"

section \<open>Errors, bytes and the file system\<close>

type_synonym bytes = "8 word list"

text \<open>
  Every \<^verbatim>\<open>raise\<close> is a value. \<^verbatim>\<open>HTTPError\<close> carries the status of the response;
  \<^verbatim>\<open>RequestException\<close> stands for the other failures of the HTTP client; the rest are
  the \<^verbatim>\<open>OSError\<close> subclasses of the file operations.
\<close>

datatype error =
    HTTPError int
  | RequestException string
  | FileExistsError Path
  | FileNotFoundError Path
  | NotADirectoryError Path
  | IsADirectoryError Path

datatype node = Directory | File bytes

type_synonym filesystem = "Path \<rightharpoonup> node"

text \<open>
  The file system is a map from paths to what is stored there. The operations on it
  (\<^verbatim>\<open>Path.exists\<close>, \<^verbatim>\<open>Path.is_dir\<close>, \<^verbatim>\<open>os.mkdir\<close>, \<^verbatim>\<open>Path.mkdir\<close>,
  \<^verbatim>\<open>Path.write_bytes\<close>) are the library's and the operating system's; the module only
  calls them. Permissions, symbolic links and concurrent changes are left out.

  A call that may raise and may change the world \<open>'w\<close> it runs in returns its result,
  or the error it raised, together with the world it left.
\<close>

type_synonym ('e, 'a, 'w) action = "'w \<Rightarrow> ('e + 'a) \<times> 'w"

definition Path_exists :: "Path \<Rightarrow> filesystem \<Rightarrow> bool" where
  "Path_exists p fs = (fs p \<noteq> None)"

definition is_dir :: "Path \<Rightarrow> filesystem \<Rightarrow> bool" where
  "is_dir p fs = (fs p = Some Directory)"

text \<open>
  \<^verbatim>\<open>os.mkdir(p)\<close>: one directory, whose parent must be a directory and which must not
  exist yet.
\<close>

definition os_mkdir :: "Path \<Rightarrow> (error, unit, filesystem) action" where
  "os_mkdir p fs =
     (if fs p \<noteq> None then (Inl (FileExistsError p), fs)
      else (case fs (parent p) of
              None \<Rightarrow> (Inl (FileNotFoundError p), fs)
            | Some (File b) \<Rightarrow> (Inl (NotADirectoryError p), fs)
            | Some Directory \<Rightarrow> (Inr (), fs(p \<mapsto> Directory))))"

text \<open>
  Modelled from the spec: \<^verbatim>\<open>Path.mkdir\<close> is pathlib's, not a function of the module
  (section 4.1: "creates path and all missing ancestors; succeeds silently (no error) if
  path already exists as a directory"). The recursion is the library's:
  \<^verbatim>\<open>
  def mkdir(self, mode=0o777, parents=False, exist_ok=False):
      try:
          os.mkdir(self, mode)
      except FileNotFoundError:
          if not parents or self.parent == self:
              raise
          self.parent.mkdir(parents=True, exist_ok=True)
          self.mkdir(mode, parents=False, exist_ok=exist_ok)
      except OSError:
          if not exist_ok or not self.is_dir():
              raise
  \<close>
\<close>

function mkdir :: "Path \<Rightarrow> bool \<Rightarrow> bool \<Rightarrow> (error, unit, filesystem) action" where
  "mkdir p parents exist_ok fs =
     (case os_mkdir p fs of
        (Inr u, fs1) \<Rightarrow> (Inr (), fs1)
      | (Inl (FileNotFoundError q), fs1) \<Rightarrow>
          (if \<not> parents \<or> parent p = p then (Inl (FileNotFoundError q), fs1)
           else (case mkdir (parent p) True True fs1 of
                   (Inl e, fs2) \<Rightarrow> (Inl e, fs2)
                 | (Inr u, fs2) \<Rightarrow> mkdir p False exist_ok fs2))
      | (Inl e, fs1) \<Rightarrow>
          (if \<not> exist_ok \<or> \<not> is_dir p fs1 then (Inl e, fs1) else (Inr (), fs1)))"
  by pat_completeness auto
termination
  by (relation "measure (\<lambda>(p, parents, exist_ok, fs). 2 * length (tail p) + (if parents then 1 else 0))")
     (auto simp: parent_def split: if_splits)

text \<open>
  \<^verbatim>\<open>p.write_bytes(data)\<close>: opens \<^verbatim>\<open>p\<close> for writing (created or truncated) and writes
  \<^verbatim>\<open>data\<close>.
\<close>

definition Path_write_bytes :: "Path \<Rightarrow> bytes \<Rightarrow> (error, unit, filesystem) action" where
  "Path_write_bytes p data fs =
     (case fs p of
        Some Directory \<Rightarrow> (Inl (IsADirectoryError p), fs)
      | _ \<Rightarrow> (case fs (parent p) of
                None \<Rightarrow> (Inl (FileNotFoundError p), fs)
              | Some (File b) \<Rightarrow> (Inl (NotADirectoryError p), fs)
              | Some Directory \<Rightarrow> (Inr (), fs(p \<mapsto> File data))))"

section \<open>The file system interface and its default implementation\<close>

record ('e, 'w) FileSystemInterface =
  exists :: "Path \<Rightarrow> ('e, bool, 'w) action"
  write_bytes :: "Path \<Rightarrow> bytes \<Rightarrow> ('e, unit, 'w) action"
  create_directory :: "Path \<Rightarrow> ('e, unit, 'w) action"

definition DefaultFileSystem_exists :: "Path \<Rightarrow> (error, bool, filesystem) action" where
  "DefaultFileSystem_exists path fs = (Inr (Path_exists path fs), fs)"

definition DefaultFileSystem_write_bytes :: "Path \<Rightarrow> bytes \<Rightarrow> (error, unit, filesystem) action" where
  "DefaultFileSystem_write_bytes path content = Path_write_bytes path content"

definition DefaultFileSystem_create_directory :: "Path \<Rightarrow> (error, unit, filesystem) action" where
  "DefaultFileSystem_create_directory path = mkdir path True True"

definition DefaultFileSystem :: "(error, filesystem) FileSystemInterface" where
  "DefaultFileSystem =
     \<lparr>exists = DefaultFileSystem_exists,
      write_bytes = DefaultFileSystem_write_bytes,
      create_directory = DefaultFileSystem_create_directory\<rparr>"

section \<open>Downloaders\<close>

record ('e, 'w) DocumentDownloader =
  download :: "string \<Rightarrow> Path \<Rightarrow> ('e, unit, 'w) action"

section \<open>The document load service\<close>

record ('e, 'w) DocumentLoadService =
  downloader :: "('e, 'w) DocumentDownloader"
  file_system :: "('e, 'w) FileSystemInterface"

text \<open>
  \<^verbatim>\<open>DocumentLoadService(downloader, file_system=None)\<close> sets
  \<^verbatim>\<open>self.file_system = file_system or DefaultFileSystem()\<close>. \<^verbatim>\<open>or\<close> tests the truth value
  of its left operand, so the default file system is taken for \<^verbatim>\<open>None\<close> and also for an
  injected object that is falsy (one whose \<^verbatim>\<open>__bool__\<close> answers false or whose
  \<^verbatim>\<open>__len__\<close> answers 0). An injected object is given with its truth value.
\<close>

definition DocumentLoadService_init ::
  "(error, filesystem) DocumentDownloader \<Rightarrow>
   (bool \<times> (error, filesystem) FileSystemInterface) option \<Rightarrow>
   (error, filesystem) DocumentLoadService" where
  "DocumentLoadService_init d file_system_arg =
     \<lparr>downloader = d,
      file_system =
        (case file_system_arg of
           None \<Rightarrow> DefaultFileSystem
         | Some (truthy, f) \<Rightarrow> if truthy then f else DefaultFileSystem)\<rparr>"

text \<open>
  \<^verbatim>\<open>
  if skip_if_exists and self.file_system.exists(destination):
      return False
  self.file_system.create_directory(destination.parent)
  self.downloader.download(url, destination)
  return True
  \<close>
  \<^verbatim>\<open>and\<close> evaluates its right operand only when the left one is true, so \<^verbatim>\<open>exists\<close> is
  called only under \<^verbatim>\<open>skip_if_exists\<close>. An error of a collaborator leaves the function at
  once, in the world the collaborator left.
\<close>

definition load_document ::
  "('e, 'w) DocumentLoadService \<Rightarrow> string \<Rightarrow> Path \<Rightarrow> bool \<Rightarrow> ('e, bool, 'w) action" where
  "load_document self url destination skip_if_exists w =
     (case (if skip_if_exists then exists (file_system self) destination w else (Inr False, w)) of
        (Inl e, w1) \<Rightarrow> (Inl e, w1)
      | (Inr True, w1) \<Rightarrow> (Inr False, w1)
      | (Inr False, w1) \<Rightarrow>
          (case create_directory (file_system self) (parent destination) w1 of
             (Inl e, w2) \<Rightarrow> (Inl e, w2)
           | (Inr u, w2) \<Rightarrow>
               (case download (downloader self) url destination w2 of
                  (Inl e, w3) \<Rightarrow> (Inl e, w3)
                | (Inr u', w3) \<Rightarrow> (Inr True, w3))))"

section \<open>Recording the calls to the collaborators\<close>

text \<open>
  The tests of the module replace the collaborators by \<^verbatim>\<open>unittest.mock.Mock\<close> objects and
  then read the calls each one received. The same device here: a collaborator is wrapped
  so that every call is appended to a list carried beside the world, before the wrapped
  operation decides the result. The list is the sequence of calls in the order they were
  made.
\<close>

datatype call =
    exists_call Path
  | write_bytes_call Path bytes
  | create_directory_call Path
  | download_call string Path

definition record_call :: "call \<Rightarrow> ('e, 'a, 'w) action \<Rightarrow> ('e, 'a, call list \<times> 'w) action" where
  "record_call c f = (\<lambda>(calls, w). case f w of (r, w') \<Rightarrow> (r, (calls @ [c], w')))"

definition Mock_FileSystemInterface ::
  "('e, 'w) FileSystemInterface \<Rightarrow> ('e, call list \<times> 'w) FileSystemInterface" where
  "Mock_FileSystemInterface fs =
     \<lparr>exists = (\<lambda>path. record_call (exists_call path) (exists fs path)),
      write_bytes = (\<lambda>path content. record_call (write_bytes_call path content) (write_bytes fs path content)),
      create_directory = (\<lambda>path. record_call (create_directory_call path) (create_directory fs path))\<rparr>"

definition Mock_DocumentDownloader ::
  "('e, 'w) DocumentDownloader \<Rightarrow> ('e, call list \<times> 'w) DocumentDownloader" where
  "Mock_DocumentDownloader d =
     \<lparr>download = (\<lambda>url destination. record_call (download_call url destination) (download d url destination))\<rparr>"

definition Mock_DocumentLoadService ::
  "('e, 'w) DocumentLoadService \<Rightarrow> ('e, call list \<times> 'w) DocumentLoadService" where
  "Mock_DocumentLoadService self =
     \<lparr>downloader = Mock_DocumentDownloader (downloader self),
      file_system = Mock_FileSystemInterface (file_system self)\<rparr>"

section \<open>The HTTP downloader\<close>

text \<open>
  The response of the HTTP client, as far as \<^verbatim>\<open>download\<close> reads it: its status and
  its body. The request is made with \<^verbatim>\<open>stream=True\<close>, so the body is read from the
  network only when \<^verbatim>\<open>response.content\<close> is evaluated, and that read may raise.

  \<^verbatim>\<open>raise_for_status\<close> is the client library's (\<^verbatim>\<open>requests.Response\<close>), not the
  module's:
  \<^verbatim>\<open>
  def raise_for_status(self):
      http_error_msg = ""
      if 400 <= self.status_code < 500:
          http_error_msg = f"{self.status_code} Client Error: ..."
      elif 500 <= self.status_code < 600:
          http_error_msg = f"{self.status_code} Server Error: ..."
      if http_error_msg:
          raise HTTPError(http_error_msg, response=self)
  \<close>
  It raises \<^verbatim>\<open>HTTPError\<close> for a client error (400 to 499) or a server error (500 to 599)
  and returns for every other status.
\<close>

record Response =
  status_code :: int
  content :: "error + bytes"

definition raise_for_status :: "Response \<Rightarrow> error option" where
  "raise_for_status response =
     (if 400 \<le> status_code response \<and> status_code response < 500 then Some (HTTPError (status_code response))
      else if 500 \<le> status_code response \<and> status_code response < 600 then Some (HTTPError (status_code response))
      else None)"

text \<open>
  \<^verbatim>\<open>requests.get(url, stream=..., timeout=...)\<close>: the network is outside the program, so
  the request is a parameter of the model. It answers with a response or raises.
\<close>

type_synonym requests_get = "string \<Rightarrow> bool \<Rightarrow> int \<Rightarrow> error + Response"

record HTTPDocumentDownloader =
  timeout :: int
  chunk_size :: int

text \<open>\<^verbatim>\<open>HTTPDocumentDownloader(timeout=30, chunk_size=8192)\<close>\<close>

definition HTTPDocumentDownloader_init :: "int \<Rightarrow> int \<Rightarrow> HTTPDocumentDownloader" where
  "HTTPDocumentDownloader_init t c = \<lparr>timeout = t, chunk_size = c\<rparr>"

text \<open>
  \<^verbatim>\<open>
  response = requests.get(url, stream=True, timeout=self.timeout)
  response.raise_for_status()
  destination.parent.mkdir(parents=True, exist_ok=True)
  destination.write_bytes(response.content)
  \<close>
\<close>

definition HTTPDocumentDownloader_download ::
  "requests_get \<Rightarrow> HTTPDocumentDownloader \<Rightarrow> string \<Rightarrow> Path \<Rightarrow> (error, unit, filesystem) action" where
  "HTTPDocumentDownloader_download get self url destination fs =
     (case get url True (timeout self) of
        Inl e \<Rightarrow> (Inl e, fs)
      | Inr response \<Rightarrow>
          (case raise_for_status response of
             Some e \<Rightarrow> (Inl e, fs)
           | None \<Rightarrow>
               (case mkdir (parent destination) True True fs of
                  (Inl e, fs1) \<Rightarrow> (Inl e, fs1)
                | (Inr u, fs1) \<Rightarrow>
                    (case content response of
                       Inl e \<Rightarrow> (Inl e, fs1)
                     | Inr body \<Rightarrow> Path_write_bytes destination body fs1))))"

definition HTTPDocumentDownloader_as_DocumentDownloader ::
  "requests_get \<Rightarrow> HTTPDocumentDownloader \<Rightarrow> (error, filesystem) DocumentDownloader" where
  "HTTPDocumentDownloader_as_DocumentDownloader get self =
     \<lparr>download = HTTPDocumentDownloader_download get self\<rparr>"

section \<open>The document repository\<close>

record DocumentRepository =
  base_directory :: Path

definition get_document_path :: "DocumentRepository \<Rightarrow> string \<Rightarrow> Path" where
  "get_document_path self filename = truediv (base_directory self) filename"

definition ensure_directory_exists :: "DocumentRepository \<Rightarrow> (error, unit, filesystem) action" where
  "ensure_directory_exists self = mkdir (base_directory self) True True"

section \<open>Reading the recorded calls\<close>

fun is_exists_call :: "call \<Rightarrow> bool" where
  "is_exists_call (exists_call p) = True"
| "is_exists_call (write_bytes_call p b) = False"
| "is_exists_call (create_directory_call p) = False"
| "is_exists_call (download_call u p) = False"

fun is_download_call :: "call \<Rightarrow> bool" where
  "is_download_call (exists_call p) = False"
| "is_download_call (write_bytes_call p b) = False"
| "is_download_call (create_directory_call p) = False"
| "is_download_call (download_call u p) = True"

section \<open>A concrete setting\<close>

text \<open>
  The setting of the module's integration tests: the default file system, the HTTP
  downloader with its default parameters, and an HTTP client that answers every
  request with a fixed status and body.
\<close>

definition example_url :: string where
  "example_url = ''https://example.com/doc.pdf''"

definition example_destination :: Path where
  "example_destination = Path ''/'' [''documents'', ''doc.pdf'']"

definition example_body :: bytes where
  "example_body = [80, 68, 70]"

definition fs_absent :: filesystem where
  "fs_absent = [Path ''/'' [] \<mapsto> Directory]"

definition fs_present :: filesystem where
  "fs_present =
     [Path ''/'' [] \<mapsto> Directory,
      Path ''/'' [''documents''] \<mapsto> Directory,
      Path ''/'' [''documents'', ''doc.pdf''] \<mapsto> File [1, 2]]"

definition fixed_response :: "int \<Rightarrow> bytes \<Rightarrow> requests_get" where
  "fixed_response status body = (\<lambda>url stream t. Inr \<lparr>status_code = status, content = Inr body\<rparr>)"

definition example_service :: "int \<Rightarrow> (error, filesystem) DocumentLoadService" where
  "example_service status =
     DocumentLoadService_init
       (HTTPDocumentDownloader_as_DocumentDownloader
          (fixed_response status example_body) (HTTPDocumentDownloader_init 30 8192))
       None"

definition example_nested :: Path where
  "example_nested = Path ''/'' [''documents'', ''doc.pdf'', ''x.pdf'']"

text \<open>The file systems the runs below end in.\<close>

definition fs_created :: filesystem where
  "fs_created = fs_absent(Path ''/'' [''documents''] \<mapsto> Directory)"

definition fs_downloaded :: filesystem where
  "fs_downloaded = fs_created(example_destination \<mapsto> File example_body)"

definition fs_overwritten :: filesystem where
  "fs_overwritten = fs_present(example_destination \<mapsto> File example_body)"

definition example_reports :: Path where
  "example_reports = Path ''/'' [''documents'', ''reports'']"

definition fs_reports :: filesystem where
  "fs_reports = fs_created(example_reports \<mapsto> Directory)"

section \<open>Basic facts\<close>

declare mkdir.simps [simp del]

lemma record_call_apply:
  "record_call c f (calls, w) = (fst (f w), calls @ [c], snd (f w))"
  by (simp add: record_call_def split: prod.splits)

lemma Mock_exists:
  "exists (file_system (Mock_DocumentLoadService self)) p (calls, w) =
     (fst (exists (file_system self) p w), calls @ [exists_call p],
      snd (exists (file_system self) p w))"
  by (simp add: Mock_DocumentLoadService_def Mock_FileSystemInterface_def record_call_apply)

lemma Mock_create_directory:
  "create_directory (file_system (Mock_DocumentLoadService self)) p (calls, w) =
     (fst (create_directory (file_system self) p w), calls @ [create_directory_call p],
      snd (create_directory (file_system self) p w))"
  by (simp add: Mock_DocumentLoadService_def Mock_FileSystemInterface_def record_call_apply)

lemma Mock_download:
  "download (downloader (Mock_DocumentLoadService self)) u p (calls, w) =
     (fst (download (downloader self) u p w), calls @ [download_call u p],
      snd (download (downloader self) u p w))"
  by (simp add: Mock_DocumentLoadService_def Mock_DocumentDownloader_def record_call_apply)

lemmas Mock_calls = Mock_exists Mock_create_directory Mock_download

subsection \<open>Joining paths\<close>

lemma str_split_not_Nil: "str_split sep s \<noteq> []"
  by (induction s) (auto split: list.splits)

lemma str_split_append:
  "str_split sep (xs @ sep # ys) = str_split sep xs @ str_split sep ys"
  by (induction xs) (auto split: list.splits simp: str_split_not_Nil)

lemma comps_Nil: "comps [] = []"
  by (simp add: comps_def)

lemma comps_append_sep: "comps (xs @ CHR ''/'' # ys) = comps xs @ comps ys"
  by (simp add: comps_def str_split_append)

lemma comps_snoc_sep: "comps (xs @ ''/'') = comps xs"
  using comps_append_sep[of xs "[]"] by (simp add: comps_Nil)

lemma comps_append_ends:
  assumes "xs = [] \<or> last xs = CHR ''/''"
  shows "comps (xs @ ys) = comps xs @ comps ys"
proof (cases "xs = []")
  case True
  then show ?thesis by (simp add: comps_Nil)
next
  case False
  with assms obtain zs where xs: "xs = zs @ ''/''"
    by (metis append_butlast_last_id)
  then show ?thesis by (simp add: comps_append_sep comps_snoc_sep comps_Nil)
qed

lemma PurePosixPath_comps:
  "PurePosixPath s = Path (fst (splitroot s)) (comps (snd (splitroot s)))"
  by (simp add: PurePosixPath_def split: prod.splits)

lemma splitroot_relative: "take 1 b \<noteq> ''/'' \<Longrightarrow> splitroot b = ([], b)"
  by (simp add: splitroot_def)

lemma splitroot_absolute: "take 1 b = ''/'' \<Longrightarrow> fst (splitroot b) \<noteq> []"
  by (cases b) (auto simp: splitroot_def)

text \<open>
  Appending to a non-empty string leaves its root alone, as long as no separator is
  doubled at the seam.
\<close>

lemma splitroot_append:
  assumes "a \<noteq> []" and "take 1 x \<noteq> ''/'' \<or> last a \<noteq> CHR ''/''"
  shows "splitroot (a @ x) = (fst (splitroot a), snd (splitroot a) @ x)"
proof (cases a)
  case Nil
  with assms show ?thesis by simp
next
  case (Cons c1 a1)
  show ?thesis
  proof (cases a1)
    case Nil
    with Cons assms show ?thesis by (cases x) (auto simp: splitroot_def)
  next
    case (Cons c2 a2)
    show ?thesis
    proof (cases a2)
      case Nil
      with \<open>a = c1 # a1\<close> \<open>a1 = c2 # a2\<close> assms show ?thesis
        by (cases x) (auto simp: splitroot_def)
    next
      case (Cons c3 a3)
      with \<open>a = c1 # a1\<close> \<open>a1 = c2 # a2\<close> show ?thesis
        by (auto simp: splitroot_def)
    qed
  qed
qed

lemma splitroot_rel_ends:
  "a \<noteq> [] \<Longrightarrow> last a = CHR ''/'' \<Longrightarrow>
   snd (splitroot a) = [] \<or> last (snd (splitroot a)) = CHR ''/''"
proof (cases a)
  case Nil
  then show ?thesis by (simp add: splitroot_def)
next
  case (Cons c1 a1)
  assume "a \<noteq> []" and "last a = CHR ''/''"
  with Cons show ?thesis
    by (cases a1) (auto simp: splitroot_def split: if_splits)
qed

text \<open>
  The join operator of paths is the join of the platform on their strings: joining the
  path made from \<^verbatim>\<open>a\<close> with \<^verbatim>\<open>b\<close> gives the path made from \<^verbatim>\<open>os.path.join(a, b)\<close>.
\<close>

lemma truediv_join: "truediv (PurePosixPath a) b = PurePosixPath (posixpath_join a b)"
proof (cases "take 1 b = ''/''")
  case True
  then show ?thesis
    by (simp add: truediv_def posixpath_join_def Let_def PurePosixPath_comps splitroot_absolute)
next
  case rel: False
  then have b: "PurePosixPath b = Path [] (comps b)"
    by (simp add: PurePosixPath_comps splitroot_relative)
  show ?thesis
  proof (cases "a = []")
    case True
    with rel b show ?thesis
      by (simp add: truediv_def posixpath_join_def Let_def PurePosixPath_comps splitroot_def comps_Nil)
  next
    case ne: False
    show ?thesis
    proof (cases "last a = CHR ''/''")
      case True
      from ne rel have "splitroot (a @ b) = (fst (splitroot a), snd (splitroot a) @ b)"
        by (intro splitroot_append) auto
      moreover from splitroot_rel_ends[OF ne True]
      have "comps (snd (splitroot a) @ b) = comps (snd (splitroot a)) @ comps b"
        by (rule comps_append_ends)
      ultimately show ?thesis using ne rel True b
        by (simp add: truediv_def posixpath_join_def Let_def PurePosixPath_comps)
    next
      case False
      from ne False
      have "splitroot (a @ ''/'' @ b) = (fst (splitroot a), snd (splitroot a) @ ''/'' @ b)"
        by (intro splitroot_append) auto
      then show ?thesis using ne rel False b
        by (simp add: truediv_def posixpath_join_def Let_def PurePosixPath_comps comps_append_sep)
    qed
  qed
qed

subsection \<open>Directory creation\<close>

lemma os_mkdir_Inr: "os_mkdir p fs = (Inr u, fs') \<Longrightarrow> fs' = fs(p \<mapsto> Directory)"
  by (auto simp: os_mkdir_def split: if_splits option.splits node.splits)

text \<open>A \<^verbatim>\<open>mkdir\<close> that returns leaves a directory at its path, whatever its flags.\<close>

lemma mkdir_Inr_is_dir: "mkdir p parents exist_ok fs = (Inr u, fs') \<Longrightarrow> is_dir p fs'"
proof (induction p parents exist_ok fs arbitrary: u fs' rule: mkdir.induct)
  case (1 p parents exist_ok fs)
  show ?case
  proof (cases "os_mkdir p fs")
    case (Pair r fs1)
    show ?thesis
    proof (cases r)
      case (Inr v)
      with Pair "1.prems" have "fs' = fs(p \<mapsto> Directory)"
        by (subst (asm) mkdir.simps) (auto dest: os_mkdir_Inr)
      then show ?thesis by (simp add: is_dir_def)
    next
      case (Inl e)
      show ?thesis
      proof (cases "\<exists>q. e = FileNotFoundError q")
        case True
        then obtain q where e: "e = FileNotFoundError q" by blast
        from "1.prems" Pair Inl e have np: "\<not> (\<not> parents \<or> parent p = p)"
          by (subst (asm) mkdir.simps) (auto split: if_splits)
        from "1.prems" Pair Inl e np obtain u2 fs2 where
          m1: "mkdir (parent p) True True fs1 = (Inr u2, fs2)" and
          m2: "mkdir p False exist_ok fs2 = (Inr u, fs')"
          by (subst (asm) mkdir.simps) (auto split: prod.splits sum.splits)
        from "1.IH"(2)[OF Pair[symmetric] Inl e np m1[symmetric] _ m2] show ?thesis
          by simp
      next
        case False
        with "1.prems" Pair Inl show ?thesis
          by (subst (asm) mkdir.simps) (cases e; auto split: if_splits)
      qed
    qed
  qed
qed

text \<open>With \<^verbatim>\<open>exist_ok\<close>, \<^verbatim>\<open>mkdir\<close> on a directory returns and changes nothing.\<close>

lemma mkdir_is_dir: "is_dir p fs \<Longrightarrow> mkdir p parents True fs = (Inr (), fs)"
  by (subst mkdir.simps) (simp add: os_mkdir_def is_dir_def)

text \<open>
  A file system is tree-shaped when the parent of every entry is a directory. \<^verbatim>\<open>mkdir\<close>
  keeps the shape, also when it raises half way.
\<close>

lemma os_mkdir_tree:
  assumes "\<forall>q. fs q \<noteq> None \<longrightarrow> is_dir (parent q) fs"
    and "os_mkdir p fs = (r, fs')"
  shows "\<forall>q. fs' q \<noteq> None \<longrightarrow> is_dir (parent q) fs'"
  using assms
  by (auto simp: os_mkdir_def is_dir_def split: if_splits option.splits node.splits)

lemma mkdir_tree:
  "\<forall>q. fs q \<noteq> None \<longrightarrow> is_dir (parent q) fs \<Longrightarrow> mkdir p parents exist_ok fs = (r, fs') \<Longrightarrow>
   \<forall>q. fs' q \<noteq> None \<longrightarrow> is_dir (parent q) fs'"
proof (induction p parents exist_ok fs arbitrary: r fs' rule: mkdir.induct)
  case (1 p parents exist_ok fs)
  obtain r1 fs1 where os: "os_mkdir p fs = (r1, fs1)" by (cases "os_mkdir p fs")
  from os_mkdir_tree[OF "1.prems"(1) os]
  have t1: "\<forall>q. fs1 q \<noteq> None \<longrightarrow> is_dir (parent q) fs1" .
  show ?case
  proof (cases r1)
    case (Inr v)
    with os "1.prems"(2) have "fs' = fs1" by (subst (asm) mkdir.simps) simp
    with t1 show ?thesis by simp
  next
    case (Inl e)
    show ?thesis
    proof (cases "\<exists>q. e = FileNotFoundError q")
      case False
      with os Inl "1.prems"(2) have "fs' = fs1"
        by (subst (asm) mkdir.simps) (cases e; auto split: if_splits)
      with t1 show ?thesis by simp
    next
      case True
      then obtain q where e: "e = FileNotFoundError q" by blast
      show ?thesis
      proof (cases "\<not> parents \<or> parent p = p")
        case True
        with os Inl e "1.prems"(2) have "fs' = fs1" by (subst (asm) mkdir.simps) auto
        with t1 show ?thesis by simp
      next
        case np: False
        obtain r2 fs2 where m1: "mkdir (parent p) True True fs1 = (r2, fs2)"
          by (cases "mkdir (parent p) True True fs1")
        from "1.IH"(1)[OF os[symmetric] Inl e np t1 m1]
        have t2: "\<forall>q. fs2 q \<noteq> None \<longrightarrow> is_dir (parent q) fs2" .
        show ?thesis
        proof (cases r2)
          case (Inl e2)
          with os \<open>r1 = Inl e\<close> e np m1 "1.prems"(2) have "fs' = fs2"
            by (subst (asm) mkdir.simps) auto
          with t2 show ?thesis by simp
        next
          case (Inr v2)
          with os \<open>r1 = Inl e\<close> e np m1 "1.prems"(2)
          have m2: "mkdir p False exist_ok fs2 = (r, fs')"
            by (subst (asm) mkdir.simps) auto
          from "1.IH"(2)[OF os[symmetric] \<open>r1 = Inl e\<close> e np m1[symmetric] Inr t2 m2]
          show ?thesis .
        qed
      qed
    qed
  qed
qed

text \<open>
  With \<^verbatim>\<open>parents\<close> and \<^verbatim>\<open>exist_ok\<close>, \<^verbatim>\<open>mkdir\<close> returns whenever the root is a
  directory and no prefix of the path is a file, whichever ancestors are missing. What
  it changes are entries that were absent, at prefixes of the path, and each becomes a
  directory.
\<close>

lemma mkdir_creates:
  assumes "is_dir (Path r []) fs"
    and "\<forall>k b. fs (Path r (take k xs)) \<noteq> Some (File b)"
  shows "\<exists>fs'. mkdir (Path r xs) True True fs = (Inr (), fs') \<and>
           (\<forall>q. fs' q \<noteq> fs q \<longrightarrow>
              fs q = None \<and> fs' q = Some Directory \<and> (\<exists>k. q = Path r (take k xs)))"
  using assms
proof (induction xs rule: rev_induct)
  case Nil
  then have "mkdir (Path r []) True True fs = (Inr (), fs)" by (simp add: mkdir_is_dir)
  then show ?case by simp
next
  case (snoc x xs)
  let ?p = "Path r (xs @ [x])"
  have par: "parent ?p = Path r xs" by (simp add: parent_def)
  have self: "\<exists>k. ?p = Path r (take k (xs @ [x]))"
    by (rule exI[of _ "length (xs @ [x])"]) simp
  have pre: "\<exists>k'. Path r (take k xs) = Path r (take k' (xs @ [x]))" for k
    by (rule exI[of _ "min k (length xs)"]) (simp add: min_def)
  from snoc.prems(2) have nf_p: "\<forall>b. fs ?p \<noteq> Some (File b)"
    by (metis order_refl take_all)
  have nf_par: "\<forall>b. fs (Path r xs) \<noteq> Some (File b)"
  proof
    fix b
    from snoc.prems(2) have "fs (Path r (take (length xs) (xs @ [x]))) \<noteq> Some (File b)" by blast
    then show "fs (Path r xs) \<noteq> Some (File b)" by simp
  qed
  have nf_xs: "\<forall>k b. fs (Path r (take k xs)) \<noteq> Some (File b)"
  proof (intro allI)
    fix k b
    from snoc.prems(2) have "fs (Path r (take (min k (length xs)) (xs @ [x]))) \<noteq> Some (File b)"
      by blast
    then show "fs (Path r (take k xs)) \<noteq> Some (File b)"
      by (cases "k \<le> length xs") (simp_all add: min_def)
  qed
  show ?case
  proof (cases "fs ?p")
    case (Some n)
    with nf_p have "is_dir ?p fs" by (cases n) (simp_all add: is_dir_def)
    then have "mkdir ?p True True fs = (Inr (), fs)" by (rule mkdir_is_dir)
    then show ?thesis by simp
  next
    case None
    show ?thesis
    proof (cases "fs (Path r xs)")
      case (Some n)
      with nf_par have d: "fs (Path r xs) = Some Directory" by (cases n) simp_all
      with None par have "mkdir ?p True True fs = (Inr (), fs(?p \<mapsto> Directory))"
        by (subst mkdir.simps) (simp add: os_mkdir_def)
      with self None show ?thesis by auto
    next
      case np: None
      from snoc.IH[OF snoc.prems(1) nf_xs] obtain fs2 where
        m1: "mkdir (Path r xs) True True fs = (Inr (), fs2)" and
        fr: "\<forall>q. fs2 q \<noteq> fs q \<longrightarrow>
               fs q = None \<and> fs2 q = Some Directory \<and> (\<exists>k. q = Path r (take k xs))"
        by blast
      from m1 have d2: "is_dir (Path r xs) fs2" by (rule mkdir_Inr_is_dir)
      have p2: "fs2 ?p = None"
      proof (rule ccontr)
        assume "fs2 ?p \<noteq> None"
        with None fr obtain k where "?p = Path r (take k xs)" by metis
        then have "length (xs @ [x]) = length (take k xs)" by simp
        then show False by simp
      qed
      from p2 d2 par have leaf: "mkdir ?p False True fs2 = (Inr (), fs2(?p \<mapsto> Directory))"
        by (subst mkdir.simps) (simp add: os_mkdir_def is_dir_def)
      from None np par have os: "os_mkdir ?p fs = (Inl (FileNotFoundError ?p), fs)"
        by (simp add: os_mkdir_def)
      have neq: "parent ?p \<noteq> ?p" by (simp add: par)
      from os neq par m1 leaf have res: "mkdir ?p True True fs = (Inr (), fs2(?p \<mapsto> Directory))"
        by (subst mkdir.simps) simp
      have "\<forall>q. (fs2(?p \<mapsto> Directory)) q \<noteq> fs q \<longrightarrow>
              fs q = None \<and> (fs2(?p \<mapsto> Directory)) q = Some Directory \<and>
              (\<exists>k. q = Path r (take k (xs @ [x])))"
      proof (intro allI impI)
        fix q
        assume ch: "(fs2(?p \<mapsto> Directory)) q \<noteq> fs q"
        show "fs q = None \<and> (fs2(?p \<mapsto> Directory)) q = Some Directory \<and>
              (\<exists>k. q = Path r (take k (xs @ [x])))"
        proof (cases "q = ?p")
          case True
          with self None show ?thesis by auto
        next
          case False
          with ch have "fs2 q \<noteq> fs q" by simp
          with fr obtain k where a: "fs q = None" "fs2 q = Some Directory" "q = Path r (take k xs)"
            by blast
          from pre[of k] a(3) have "\<exists>k'. q = Path r (take k' (xs @ [x]))" by simp
          with a False show ?thesis by simp
        qed
      qed
      with res show ?thesis by blast
    qed
  qed
qed

text \<open>In a tree-shaped file system every prefix of a directory's path is a directory.\<close>

lemma tree_ancestors:
  assumes t: "\<forall>q. fs q \<noteq> None \<longrightarrow> is_dir (parent q) fs"
  shows "is_dir (Path r xs) fs \<Longrightarrow> is_dir (Path r (take k xs)) fs"
proof (induction xs rule: rev_induct)
  case Nil
  then show ?case by simp
next
  case (snoc x xs)
  from snoc.prems have "fs (Path r (xs @ [x])) \<noteq> None" by (simp add: is_dir_def)
  with t have "is_dir (parent (Path r (xs @ [x]))) fs" by blast
  then have "is_dir (Path r xs) fs" by (simp add: parent_def)
  from snoc.IH[OF this] snoc.prems show ?case
    by (cases "k \<le> length xs") simp_all
qed

subsection \<open>The two outcomes of the HTTP download\<close>

lemma download_status_error:
  assumes "get url True (timeout self) = Inr response"
    and "raise_for_status response = Some e"
  shows "HTTPDocumentDownloader_download get self url destination fs = (Inl e, fs)"
  using assms by (simp add: HTTPDocumentDownloader_download_def)

lemma download_ok:
  assumes "get url True (timeout self) = Inr response"
    and "raise_for_status response = None"
    and "content response = Inr body"
    and "is_dir (parent destination) fs"
    and "fs destination \<noteq> Some Directory"
  shows "HTTPDocumentDownloader_download get self url destination fs =
           (Inr (), fs(destination \<mapsto> File body))"
  using assms
  by (auto simp: HTTPDocumentDownloader_download_def mkdir_is_dir Path_write_bytes_def is_dir_def
      split: option.splits node.splits)

subsection \<open>The concrete setting, evaluated\<close>

lemma example_parent: "parent example_destination = Path ''/'' [''documents'']"
  by (simp add: parent_def example_destination_def)

lemma example_nested_parent: "parent example_nested = example_destination"
  by (simp add: parent_def example_nested_def example_destination_def)

lemma example_file_system: "file_system (example_service s) = DefaultFileSystem"
  by (simp add: example_service_def DocumentLoadService_init_def)

lemma example_downloader:
  "download (downloader (example_service s)) =
     HTTPDocumentDownloader_download (fixed_response s example_body) (HTTPDocumentDownloader_init 30 8192)"
  by (simp add: example_service_def DocumentLoadService_init_def
      HTTPDocumentDownloader_as_DocumentDownloader_def)

lemma example_exists_present:
  "exists DefaultFileSystem example_destination fs_present = (Inr True, fs_present)"
  by (simp add: DefaultFileSystem_def DefaultFileSystem_exists_def Path_exists_def
      example_destination_def fs_present_def)

lemma example_exists_absent:
  "exists DefaultFileSystem example_destination fs_absent = (Inr False, fs_absent)"
  by (simp add: DefaultFileSystem_def DefaultFileSystem_exists_def Path_exists_def
      example_destination_def fs_absent_def)

lemma example_exists_nested:
  "exists DefaultFileSystem example_nested fs_present = (Inr False, fs_present)"
  by (simp add: DefaultFileSystem_def DefaultFileSystem_exists_def Path_exists_def
      example_nested_def fs_present_def)

lemma example_create_directory_absent:
  "create_directory DefaultFileSystem (Path ''/'' [''documents'']) fs_absent = (Inr (), fs_created)"
  by (simp add: DefaultFileSystem_def DefaultFileSystem_create_directory_def)
     (subst mkdir.simps, simp add: os_mkdir_def fs_absent_def fs_created_def parent_def)

lemma example_create_directory_present:
  "create_directory DefaultFileSystem (Path ''/'' [''documents'']) fs_present = (Inr (), fs_present)"
  by (simp add: DefaultFileSystem_def DefaultFileSystem_create_directory_def mkdir_is_dir
      is_dir_def fs_present_def)

lemma example_create_directory_file:
  "create_directory DefaultFileSystem example_destination fs_present =
     (Inl (FileExistsError example_destination), fs_present)"
  by (simp add: DefaultFileSystem_def DefaultFileSystem_create_directory_def)
     (subst mkdir.simps, simp add: os_mkdir_def fs_present_def example_destination_def is_dir_def)

lemma example_download_created:
  "HTTPDocumentDownloader_download (fixed_response 200 example_body) (HTTPDocumentDownloader_init 30 8192)
     example_url example_destination fs_created = (Inr (), fs_downloaded)"
  using download_ok [of "fixed_response 200 example_body" example_url "HTTPDocumentDownloader_init 30 8192"
      "\<lparr>status_code = 200, content = Inr example_body\<rparr>" example_body example_destination fs_created]
  by (simp add: fixed_response_def raise_for_status_def parent_def is_dir_def fs_downloaded_def
      fs_created_def fs_absent_def example_destination_def)

lemma example_download_present:
  "HTTPDocumentDownloader_download (fixed_response 200 example_body) (HTTPDocumentDownloader_init 30 8192)
     example_url example_destination fs_present = (Inr (), fs_overwritten)"
  using download_ok [of "fixed_response 200 example_body" example_url "HTTPDocumentDownloader_init 30 8192"
      "\<lparr>status_code = 200, content = Inr example_body\<rparr>" example_body example_destination fs_present]
  by (simp add: fixed_response_def raise_for_status_def parent_def is_dir_def fs_overwritten_def
      fs_present_def example_destination_def)

lemma example_download_404:
  "HTTPDocumentDownloader_download (fixed_response 404 example_body) (HTTPDocumentDownloader_init 30 8192)
     example_url example_destination fs = (Inl (HTTPError 404), fs)"
  using download_status_error [of "fixed_response 404 example_body" example_url
      "HTTPDocumentDownloader_init 30 8192" "\<lparr>status_code = 404, content = Inr example_body\<rparr>"
      "HTTPError 404" example_destination fs]
  by (simp add: fixed_response_def raise_for_status_def)

lemma example_mkdir_documents:
  "mkdir (Path ''/'' [''documents'']) True True fs_absent = (Inr (), fs_created)"
  by (subst mkdir.simps) (simp add: os_mkdir_def fs_absent_def fs_created_def parent_def)

lemma example_mkdir_reports_leaf:
  "mkdir example_reports False True fs_created = (Inr (), fs_reports)"
  by (subst mkdir.simps)
     (simp add: os_mkdir_def fs_absent_def fs_created_def fs_reports_def example_reports_def parent_def)

lemma example_mkdir_reports:
  "mkdir example_reports True True fs_absent = (Inr (), fs_reports)"
proof -
  have "os_mkdir example_reports fs_absent = (Inl (FileNotFoundError example_reports), fs_absent)"
    by (simp add: os_mkdir_def fs_absent_def example_reports_def parent_def)
  moreover have "parent example_reports = Path ''/'' [''documents'']"
    by (simp add: example_reports_def parent_def)
  moreover have "parent example_reports \<noteq> example_reports"
    by (simp add: example_reports_def parent_def)
  ultimately show ?thesis
    by (subst mkdir.simps) (simp add: example_mkdir_documents example_mkdir_reports_leaf)
qed

lemma example_mkdir_reports_no_parents:
  "mkdir example_reports False True fs_absent = (Inl (FileNotFoundError example_reports), fs_absent)"
  by (subst mkdir.simps) (simp add: os_mkdir_def fs_absent_def example_reports_def parent_def)

lemmas example_eval =
  example_parent example_nested_parent example_file_system example_downloader
  example_exists_present example_exists_absent example_exists_nested
  example_create_directory_absent example_create_directory_present example_create_directory_file
  example_download_created example_download_present example_download_404

section \<open>The document load service\<close>

text \<open>
  Claim C1. When the file system reports that the destination exists and
  \<^verbatim>\<open>skip_if_exists\<close> is true, \<^verbatim>\<open>load_document\<close> returns \<^verbatim>\<open>False\<close>. The only call it
  makes is the existence query: no \<^verbatim>\<open>create_directory\<close>, no \<^verbatim>\<open>download\<close>, and the world
  it returns is the one the query left.
\<close>

theorem load_document_skip:
  assumes "exists (file_system self) d w = (Inr True, w')"
  shows "load_document self u d True w = (Inr False, w') \<and>
         load_document (Mock_DocumentLoadService self) u d True (calls, w) =
           (Inr False, calls @ [exists_call d], w')"
  using assms by (simp add: load_document_def Mock_exists)

theorem load_document_skip_witness:
  "exists (file_system (example_service 200)) example_destination fs_present = (Inr True, fs_present) \<and>
   load_document (example_service 200) example_url example_destination True fs_present =
     (Inr False, fs_present) \<and>
   load_document (Mock_DocumentLoadService (example_service 200)) example_url example_destination True
       ([], fs_present) =
     (Inr False, [exists_call example_destination], fs_present)"
  using load_document_skip [of "example_service 200" example_destination fs_present fs_present
      example_url "[]"]
  by (simp add: example_eval)

text \<open>
  Claim C2. When the file system reports that the destination does not exist and neither
  collaborator raises, \<^verbatim>\<open>load_document\<close> returns \<^verbatim>\<open>True\<close> for either value of
  \<^verbatim>\<open>skip_if_exists\<close>; it calls \<^verbatim>\<open>create_directory\<close> once, on the parent of the
  destination, and then \<^verbatim>\<open>download\<close> once, on the URL and the destination. (The
  existence query is made only under \<^verbatim>\<open>skip_if_exists\<close>.)
\<close>

theorem load_document_fresh:
  assumes "exists (file_system self) d w = (Inr False, w')"
    and "create_directory (file_system self) (parent d) (if skip_if_exists then w' else w) = (Inr u1, w1)"
    and "download (downloader self) u d w1 = (Inr u2, w2)"
  shows "load_document self u d skip_if_exists w = (Inr True, w2) \<and>
         load_document (Mock_DocumentLoadService self) u d skip_if_exists (calls, w) =
           (Inr True,
            calls @ (if skip_if_exists then [exists_call d] else []) @
              [create_directory_call (parent d), download_call u d],
            w2)"
  using assms by (cases skip_if_exists) (simp_all add: load_document_def Mock_calls)

theorem load_document_fresh_witness:
  "exists (file_system (example_service 200)) example_destination fs_absent = (Inr False, fs_absent) \<and>
   create_directory (file_system (example_service 200)) (parent example_destination) fs_absent =
     (Inr (), fs_created) \<and>
   download (downloader (example_service 200)) example_url example_destination fs_created =
     (Inr (), fs_downloaded) \<and>
   load_document (example_service 200) example_url example_destination True fs_absent =
     (Inr True, fs_downloaded) \<and>
   load_document (Mock_DocumentLoadService (example_service 200)) example_url example_destination True
       ([], fs_absent) =
     (Inr True,
      [exists_call example_destination, create_directory_call (parent example_destination),
       download_call example_url example_destination],
      fs_downloaded) \<and>
   load_document (example_service 200) example_url example_destination False fs_absent =
     (Inr True, fs_downloaded)"
  using load_document_fresh [of "example_service 200" example_destination fs_absent fs_absent True
      "()" fs_created example_url "()" fs_downloaded "[]"]
    load_document_fresh [of "example_service 200" example_destination fs_absent fs_absent False
      "()" fs_created example_url "()" fs_downloaded "[]"]
  by (simp add: example_eval)

text \<open>
  Claim C3. When the destination exists, \<^verbatim>\<open>skip_if_exists\<close> is false and neither
  collaborator raises, \<^verbatim>\<open>load_document\<close> returns \<^verbatim>\<open>True\<close>; it calls
  \<^verbatim>\<open>create_directory\<close> once and then \<^verbatim>\<open>download\<close> once, with the URL and the
  destination it was given.
\<close>

theorem load_document_forced_overwrite:
  assumes "exists (file_system self) d w = (Inr True, w')"
    and "create_directory (file_system self) (parent d) w = (Inr u1, w1)"
    and "download (downloader self) u d w1 = (Inr u2, w2)"
  shows "load_document self u d False w = (Inr True, w2) \<and>
         load_document (Mock_DocumentLoadService self) u d False (calls, w) =
           (Inr True, calls @ [create_directory_call (parent d), download_call u d], w2)"
  using assms by (simp add: load_document_def Mock_calls)

theorem load_document_forced_overwrite_witness:
  "exists (file_system (example_service 200)) example_destination fs_present = (Inr True, fs_present) \<and>
   create_directory (file_system (example_service 200)) (parent example_destination) fs_present =
     (Inr (), fs_present) \<and>
   download (downloader (example_service 200)) example_url example_destination fs_present =
     (Inr (), fs_overwritten) \<and>
   load_document (example_service 200) example_url example_destination False fs_present =
     (Inr True, fs_overwritten) \<and>
   load_document (Mock_DocumentLoadService (example_service 200)) example_url example_destination False
       ([], fs_present) =
     (Inr True,
      [create_directory_call (parent example_destination),
       download_call example_url example_destination],
      fs_overwritten)"
  using load_document_forced_overwrite [of "example_service 200" example_destination fs_present
      fs_present "()" fs_present example_url "()" fs_overwritten "[]"]
  by (simp add: example_eval)

text \<open>
  Claim C4. When \<^verbatim>\<open>load_document\<close> reaches the download (the existence query, if made,
  answered no, and \<^verbatim>\<open>create_directory\<close> returned) and the downloader raises an error,
  \<^verbatim>\<open>load_document\<close> raises that same error and returns no boolean. The download was
  called once, nothing was called after it, and the world is the one the downloader left.
\<close>

theorem load_document_download_error:
  assumes "(if skip_if_exists then exists (file_system self) d w else (Inr False, w)) = (Inr False, w0)"
    and "create_directory (file_system self) (parent d) w0 = (Inr u1, w1)"
    and "download (downloader self) u d w1 = (Inl e, w2)"
  shows "load_document self u d skip_if_exists w = (Inl e, w2) \<and>
         load_document (Mock_DocumentLoadService self) u d skip_if_exists (calls, w) =
           (Inl e,
            calls @ (if skip_if_exists then [exists_call d] else []) @
              [create_directory_call (parent d), download_call u d],
            w2)"
  using assms by (cases skip_if_exists) (simp_all add: load_document_def Mock_calls)

theorem load_document_download_error_witness:
  "(if True then exists (file_system (example_service 404)) example_destination fs_absent
    else (Inr False, fs_absent)) = (Inr False, fs_absent) \<and>
   create_directory (file_system (example_service 404)) (parent example_destination) fs_absent =
     (Inr (), fs_created) \<and>
   download (downloader (example_service 404)) example_url example_destination fs_created =
     (Inl (HTTPError 404), fs_created) \<and>
   load_document (example_service 404) example_url example_destination True fs_absent =
     (Inl (HTTPError 404), fs_created) \<and>
   load_document (Mock_DocumentLoadService (example_service 404)) example_url example_destination True
       ([], fs_absent) =
     (Inl (HTTPError 404),
      [exists_call example_destination, create_directory_call (parent example_destination),
       download_call example_url example_destination],
      fs_created)"
  using load_document_download_error [of True "example_service 404" example_destination fs_absent
      fs_absent "()" fs_created example_url "HTTPError 404" fs_created "[]"]
  by (simp add: example_eval)

text \<open>
  Claim C9. Directory creation comes before the download: when \<^verbatim>\<open>create_directory\<close>
  raises an error, \<^verbatim>\<open>load_document\<close> raises that error and the downloader is not called.
\<close>

theorem load_document_create_directory_error:
  assumes "(if skip_if_exists then exists (file_system self) d w else (Inr False, w)) = (Inr False, w0)"
    and "create_directory (file_system self) (parent d) w0 = (Inl e, w1)"
  shows "load_document self u d skip_if_exists w = (Inl e, w1) \<and>
         load_document (Mock_DocumentLoadService self) u d skip_if_exists (calls, w) =
           (Inl e,
            calls @ (if skip_if_exists then [exists_call d] else []) @ [create_directory_call (parent d)],
            w1) \<and>
         filter is_download_call
           (drop (length calls)
              (fst (snd (load_document (Mock_DocumentLoadService self) u d skip_if_exists (calls, w))))) = []"
  using assms by (cases skip_if_exists) (simp_all add: load_document_def Mock_calls)

theorem load_document_create_directory_error_witness:
  "(if True then exists (file_system (example_service 200)) example_nested fs_present
    else (Inr False, fs_present)) = (Inr False, fs_present) \<and>
   create_directory (file_system (example_service 200)) (parent example_nested) fs_present =
     (Inl (FileExistsError example_destination), fs_present) \<and>
   load_document (example_service 200) example_url example_nested True fs_present =
     (Inl (FileExistsError example_destination), fs_present) \<and>
   load_document (Mock_DocumentLoadService (example_service 200)) example_url example_nested True
       ([], fs_present) =
     (Inl (FileExistsError example_destination),
      [exists_call example_nested, create_directory_call example_destination],
      fs_present)"
  using load_document_create_directory_error [of True "example_service 200" example_nested fs_present
      fs_present "FileExistsError example_destination" fs_present example_url "[]"]
  by (simp add: example_eval)

text \<open>
  Claim C10. With \<^verbatim>\<open>skip_if_exists\<close> false, \<^verbatim>\<open>load_document\<close> makes no call to
  \<^verbatim>\<open>exists\<close>: none is recorded, and replacing the \<^verbatim>\<open>exists\<close> operation of the file
  system by any other changes nothing of the run.
\<close>

theorem load_document_no_exists_call:
  "filter is_exists_call
     (drop (length calls)
        (fst (snd (load_document (Mock_DocumentLoadService self) u d False (calls, w))))) = [] \<and>
   load_document (self\<lparr>file_system := (file_system self)\<lparr>exists := ex\<rparr>\<rparr>) u d False w =
     load_document self u d False w"
proof -
  obtain r w1 where c: "create_directory (file_system self) (parent d) w = (r, w1)"
    by (cases "create_directory (file_system self) (parent d) w")
  obtain r' w2 where dl: "download (downloader self) u d w1 = (r', w2)"
    by (cases "download (downloader self) u d w1")
  have "fst (snd (load_document (Mock_DocumentLoadService self) u d False (calls, w))) =
          calls @ (case r of Inl e \<Rightarrow> [create_directory_call (parent d)]
                   | Inr v \<Rightarrow> [create_directory_call (parent d), download_call u d])"
    using c dl by (simp add: load_document_def Mock_calls split: sum.splits)
  then have "filter is_exists_call
      (drop (length calls)
         (fst (snd (load_document (Mock_DocumentLoadService self) u d False (calls, w))))) = []"
    by (simp split: sum.splits)
  moreover have "load_document (self\<lparr>file_system := (file_system self)\<lparr>exists := ex\<rparr>\<rparr>) u d False w =
      load_document self u d False w"
    by (simp add: load_document_def split: prod.splits sum.splits)
  ultimately show ?thesis by simp
qed

theorem load_document_no_exists_call_witness:
  "filter is_exists_call
     (fst (snd (load_document (Mock_DocumentLoadService (example_service 200)) example_url
                  example_destination False ([], fs_present)))) = [] \<and>
   load_document
     ((example_service 200)\<lparr>file_system :=
        (file_system (example_service 200))\<lparr>exists := (\<lambda>p w. (Inl (FileNotFoundError p), w))\<rparr>\<rparr>)
     example_url example_destination False fs_present =
     load_document (example_service 200) example_url example_destination False fs_present"
  using load_document_no_exists_call [of "[]" "example_service 200" example_url example_destination
      fs_present "\<lambda>p w. (Inl (FileNotFoundError p), w)"]
  by simp

section \<open>The HTTP downloader\<close>

text \<open>
  Claim C5, as amended. The claim says that every status outside 200 to 299 makes
  \<^verbatim>\<open>download\<close> fail. The code leaves the decision to \<^verbatim>\<open>raise_for_status\<close>, which raises
  for the client and server errors only. So: when the status of the response is between
  400 and 599, \<^verbatim>\<open>download\<close> raises \<^verbatim>\<open>HTTPError\<close> carrying that status, and the file
  system is left as it was: no directory is created and no file is written.
\<close>

theorem download_http_error:
  assumes "get url True (timeout self) = Inr response"
    and "400 \<le> status_code response" and "status_code response < 600"
  shows "HTTPDocumentDownloader_download get self url destination fs =
           (Inl (HTTPError (status_code response)), fs)"
proof -
  from assms(2,3) have "raise_for_status response = Some (HTTPError (status_code response))"
    by (simp add: raise_for_status_def)
  with assms(1) show ?thesis by (rule download_status_error)
qed

theorem download_http_error_witness:
  "fixed_response 404 example_body example_url True (timeout (HTTPDocumentDownloader_init 30 8192)) =
     Inr \<lparr>status_code = 404, content = Inr example_body\<rparr> \<and>
   (400::int) \<le> status_code \<lparr>status_code = 404, content = Inr example_body\<rparr> \<and>
   status_code \<lparr>status_code = 404, content = Inr example_body\<rparr> < (600::int) \<and>
   HTTPDocumentDownloader_download (fixed_response 404 example_body) (HTTPDocumentDownloader_init 30 8192)
       example_url example_destination fs_absent =
     (Inl (HTTPError 404), fs_absent)"
  using download_http_error [of "fixed_response 404 example_body" example_url
      "HTTPDocumentDownloader_init 30 8192" "\<lparr>status_code = 404, content = Inr example_body\<rparr>"
      example_destination fs_absent]
  by (simp add: fixed_response_def)

text \<open>
  The claim as stated fails at a status that is neither a success nor an error for
  \<^verbatim>\<open>raise_for_status\<close>: on a response with status 304, \<^verbatim>\<open>download\<close> returns and the
  body of the response is written to the destination.
\<close>

theorem download_not_modified_counterexample:
  "status_code \<lparr>status_code = 304, content = Inr example_body\<rparr> = 304 \<and>
   raise_for_status \<lparr>status_code = 304, content = Inr example_body\<rparr> = None \<and>
   HTTPDocumentDownloader_download (fixed_response 304 example_body) (HTTPDocumentDownloader_init 30 8192)
       example_url example_destination fs_created =
     (Inr (), fs_downloaded) \<and>
   fs_created example_destination = None \<and>
   fs_downloaded example_destination = Some (File example_body)"
  using download_ok [of "fixed_response 304 example_body" example_url "HTTPDocumentDownloader_init 30 8192"
      "\<lparr>status_code = 304, content = Inr example_body\<rparr>" example_body example_destination fs_created]
  by (simp add: fixed_response_def raise_for_status_def parent_def is_dir_def fs_downloaded_def
      fs_created_def fs_absent_def example_destination_def)

text \<open>
  Claim C8. The chunk size is not observable in the output: two downloaders that differ
  only in \<^verbatim>\<open>chunk_size\<close> give, on the same client, URL, destination and file system, the
  same outcome and the same file system, hence the same bytes at the destination. This
  part of the claim holds, for every HTTP client.

  It holds because \<^verbatim>\<open>download\<close> never reads \<^verbatim>\<open>self.chunk_size\<close>: the client is given
  the URL, \<^verbatim>\<open>stream=True\<close> and the timeout, and the body is taken whole from
  \<^verbatim>\<open>response.content\<close>. So the chunk size does not govern how the response is read,
  against the other part of the claim and against the constructor's docstring
  ("chunk_size: Size of chunks for streaming downloads").
\<close>

theorem chunk_size_not_observable:
  assumes "timeout a = timeout b"
  shows "HTTPDocumentDownloader_download get a url destination fs =
         HTTPDocumentDownloader_download get b url destination fs"
  using assms by (simp add: HTTPDocumentDownloader_download_def)

theorem chunk_size_not_observable_witness:
  "timeout (HTTPDocumentDownloader_init 30 8192) = timeout (HTTPDocumentDownloader_init 30 1) \<and>
   HTTPDocumentDownloader_download (fixed_response 200 example_body) (HTTPDocumentDownloader_init 30 1)
       example_url example_destination fs_created =
     (Inr (), fs_downloaded) \<and>
   HTTPDocumentDownloader_download (fixed_response 200 example_body) (HTTPDocumentDownloader_init 30 8192)
       example_url example_destination fs_created =
     HTTPDocumentDownloader_download (fixed_response 200 example_body) (HTTPDocumentDownloader_init 30 1)
       example_url example_destination fs_created"
  using chunk_size_not_observable [of "HTTPDocumentDownloader_init 30 8192" "HTTPDocumentDownloader_init 30 1"
      "fixed_response 200 example_body" example_url example_destination fs_created]
    example_download_created
  by (simp add: HTTPDocumentDownloader_init_def)

section \<open>The document repository and directory creation\<close>

text \<open>
  Claim C6. \<^verbatim>\<open>get_document_path\<close> is the join of the base directory and the file name
  and nothing else: a function of those two values alone, with no check of the file
  name. For a repository rooted at the path of \<^verbatim>\<open>b\<close> the result is the path of
  \<^verbatim>\<open>os.path.join(b, filename)\<close>. An absolute file name replaces the base directory; a
  relative one contributes all its components, \<^verbatim>\<open>..\<close> included, after those of the base
  directory. (Making a path from a string drops empty and \<^verbatim>\<open>.\<close> components; that is the
  path type's own reading of a string, the same for the result and for the platform's
  join.)
\<close>

theorem get_document_path_join:
  "get_document_path self filename = truediv (base_directory self) filename \<and>
   get_document_path \<lparr>base_directory = PurePosixPath b\<rparr> filename =
     PurePosixPath (posixpath_join b filename) \<and>
   get_document_path self filename =
     (if root (PurePosixPath filename) \<noteq> [] then PurePosixPath filename
      else Path (root (base_directory self))
             (tail (base_directory self) @ tail (PurePosixPath filename)))"
proof -
  have "get_document_path self filename = truediv (base_directory self) filename"
    by (simp add: get_document_path_def)
  moreover have "get_document_path \<lparr>base_directory = PurePosixPath b\<rparr> filename =
      PurePosixPath (posixpath_join b filename)"
    by (simp add: get_document_path_def truediv_join)
  moreover have "truediv (base_directory self) filename =
      (if root (PurePosixPath filename) \<noteq> [] then PurePosixPath filename
       else Path (root (base_directory self))
              (tail (base_directory self) @ tail (PurePosixPath filename)))"
    by (simp add: truediv_def Let_def)
  ultimately show ?thesis by simp
qed

theorem get_document_path_join_witness:
  "posixpath_join ''/documents'' ''nested/path.pdf'' = ''/documents/nested/path.pdf'' \<and>
   get_document_path \<lparr>base_directory = PurePosixPath ''/documents''\<rparr> ''test.pdf'' =
     PurePosixPath ''/documents/test.pdf'' \<and>
   get_document_path \<lparr>base_directory = PurePosixPath ''/documents''\<rparr> ''nested/path.pdf'' =
     PurePosixPath ''/documents/nested/path.pdf'' \<and>
   get_document_path \<lparr>base_directory = PurePosixPath ''/documents''\<rparr> ''../../etc/passwd'' =
     Path ''/'' [''documents'', ''..'', ''..'', ''etc'', ''passwd''] \<and>
   get_document_path \<lparr>base_directory = PurePosixPath ''/documents''\<rparr> ''/etc/passwd'' =
     Path ''/'' [''etc'', ''passwd'']"
  using get_document_path_join [THEN conjunct2, THEN conjunct1, of "''/documents''" "''test.pdf''"]
    get_document_path_join [THEN conjunct2, THEN conjunct1, of "''/documents''" "''nested/path.pdf''"]
    get_document_path_join [THEN conjunct2, THEN conjunct2,
      of "\<lparr>base_directory = PurePosixPath ''/documents''\<rparr>" "''../../etc/passwd''"]
    get_document_path_join [THEN conjunct2, THEN conjunct2,
      of "\<lparr>base_directory = PurePosixPath ''/documents''\<rparr>" "''/etc/passwd''"]
  by (simp add: PurePosixPath_def splitroot_def comps_def posixpath_join_def)

text \<open>
  Claim C7. Directory creation creates the path and all its missing ancestors, and is
  idempotent.

  Creation: when the root is a directory and no prefix of \<^verbatim>\<open>p\<close> is a file,
  \<^verbatim>\<open>create_directory(p)\<close> returns, whichever ancestors of \<^verbatim>\<open>p\<close> are missing; afterwards
  \<^verbatim>\<open>p\<close> is a directory, every entry that was there is unchanged, every new entry is a
  directory at a prefix of \<^verbatim>\<open>p\<close>, and in a tree-shaped file system every prefix of
  \<^verbatim>\<open>p\<close> is a directory; a second call then returns and changes nothing.

  Idempotence in general: after any \<^verbatim>\<open>create_directory(p)\<close> that returned, a second
  \<^verbatim>\<open>create_directory(p)\<close> returns too and changes nothing, and \<^verbatim>\<open>p\<close> is a directory;
  \<^verbatim>\<open>ensure_directory_exists\<close> is \<^verbatim>\<open>create_directory\<close> on the base directory, so the same
  holds for it. On a path that is already a directory the call returns silently.
\<close>

theorem directory_creation_idempotent:
  "(is_dir (Path (root p) []) fs \<and>
    (\<forall>k b. fs (Path (root p) (take k (tail p))) \<noteq> Some (File b)) \<longrightarrow>
      (\<exists>fs1. create_directory DefaultFileSystem p fs = (Inr (), fs1) \<and>
             is_dir p fs1 \<and>
             (\<forall>q. fs1 q \<noteq> fs q \<longrightarrow>
                fs q = None \<and> fs1 q = Some Directory \<and>
                (\<exists>k. q = Path (root p) (take k (tail p)))) \<and>
             ((\<forall>q. fs q \<noteq> None \<longrightarrow> is_dir (parent q) fs) \<longrightarrow>
                (\<forall>k. is_dir (Path (root p) (take k (tail p))) fs1)) \<and>
             create_directory DefaultFileSystem p fs1 = (Inr (), fs1))) \<and>
   (create_directory DefaultFileSystem p fs = (Inr u, fs1) \<longrightarrow>
      create_directory DefaultFileSystem p fs1 = (Inr (), fs1) \<and>
      is_dir p fs1 \<and>
      ensure_directory_exists \<lparr>base_directory = p\<rparr> fs = (Inr u, fs1) \<and>
      ensure_directory_exists \<lparr>base_directory = p\<rparr> fs1 = (Inr (), fs1) \<and>
      ((\<forall>q. fs q \<noteq> None \<longrightarrow> is_dir (parent q) fs) \<longrightarrow>
         (\<forall>k. is_dir (Path (root p) (take k (tail p))) fs1))) \<and>
   (is_dir p fs2 \<longrightarrow> create_directory DefaultFileSystem p fs2 = (Inr (), fs2))"
proof -
  have cd: "create_directory DefaultFileSystem q = mkdir q True True" for q
    by (simp add: DefaultFileSystem_def DefaultFileSystem_create_directory_def)
  have returned: "mkdir p True True g' = (Inr (), g') \<and> is_dir p g' \<and>
      ((\<forall>q. g q \<noteq> None \<longrightarrow> is_dir (parent q) g) \<longrightarrow>
         (\<forall>k. is_dir (Path (root p) (take k (tail p))) g'))"
    if m: "mkdir p True True g = (Inr v, g')" for g g' v
  proof -
    from m have d: "is_dir p g'" by (rule mkdir_Inr_is_dir)
    then have again: "mkdir p True True g' = (Inr (), g')" by (rule mkdir_is_dir)
    have "\<forall>k. is_dir (Path (root p) (take k (tail p))) g'"
      if t: "\<forall>q. g q \<noteq> None \<longrightarrow> is_dir (parent q) g"
    proof
      fix k
      from mkdir_tree[OF t m] have t1: "\<forall>q. g' q \<noteq> None \<longrightarrow> is_dir (parent q) g'" .
      from d have "is_dir (Path (root p) (tail p)) g'" by simp
      from tree_ancestors[OF t1 this] show "is_dir (Path (root p) (take k (tail p))) g'" .
    qed
    with d again show ?thesis by blast
  qed
  have creates: "\<exists>fs1. create_directory DefaultFileSystem p fs = (Inr (), fs1) \<and>
             is_dir p fs1 \<and>
             (\<forall>q. fs1 q \<noteq> fs q \<longrightarrow>
                fs q = None \<and> fs1 q = Some Directory \<and>
                (\<exists>k. q = Path (root p) (take k (tail p)))) \<and>
             ((\<forall>q. fs q \<noteq> None \<longrightarrow> is_dir (parent q) fs) \<longrightarrow>
                (\<forall>k. is_dir (Path (root p) (take k (tail p))) fs1)) \<and>
             create_directory DefaultFileSystem p fs1 = (Inr (), fs1)"
    if r: "is_dir (Path (root p) []) fs"
      and nf: "\<forall>k b. fs (Path (root p) (take k (tail p))) \<noteq> Some (File b)"
  proof -
    from mkdir_creates[OF r nf] obtain g where
      m: "mkdir p True True fs = (Inr (), g)" and
      fr: "\<forall>q. g q \<noteq> fs q \<longrightarrow>
             fs q = None \<and> g q = Some Directory \<and> (\<exists>k. q = Path (root p) (take k (tail p)))"
      by auto
    from returned[OF m] m fr show ?thesis unfolding cd by blast
  qed
  have second: "create_directory DefaultFileSystem p fs1 = (Inr (), fs1) \<and>
      is_dir p fs1 \<and>
      ensure_directory_exists \<lparr>base_directory = p\<rparr> fs = (Inr u, fs1) \<and>
      ensure_directory_exists \<lparr>base_directory = p\<rparr> fs1 = (Inr (), fs1) \<and>
      ((\<forall>q. fs q \<noteq> None \<longrightarrow> is_dir (parent q) fs) \<longrightarrow>
         (\<forall>k. is_dir (Path (root p) (take k (tail p))) fs1))"
    if c: "create_directory DefaultFileSystem p fs = (Inr u, fs1)"
  proof -
    from c have m: "mkdir p True True fs = (Inr u, fs1)" by (simp add: cd)
    from returned[OF m] m show ?thesis
      by (simp add: cd ensure_directory_exists_def)
  qed
  have silent: "create_directory DefaultFileSystem p fs2 = (Inr (), fs2)" if "is_dir p fs2"
    using that by (simp add: cd mkdir_is_dir)
  from creates second silent show ?thesis by blast
qed

theorem directory_creation_idempotent_witness:
  "is_dir (Path ''/'' []) fs_absent \<and>
   (\<forall>k b. fs_absent (Path (root example_reports) (take k (tail example_reports))) \<noteq> Some (File b)) \<and>
   (\<forall>q. fs_absent q = None \<or> is_dir (parent q) fs_absent) \<and>
   fs_absent (Path ''/'' [''documents'']) = None \<and>
   mkdir example_reports False True fs_absent = (Inl (FileNotFoundError example_reports), fs_absent) \<and>
   create_directory DefaultFileSystem example_reports fs_absent = (Inr (), fs_reports) \<and>
   is_dir example_reports fs_reports \<and>
   is_dir (Path ''/'' [''documents'']) fs_reports \<and>
   is_dir (Path ''/'' []) fs_reports \<and>
   create_directory DefaultFileSystem example_reports fs_reports = (Inr (), fs_reports) \<and>
   ensure_directory_exists \<lparr>base_directory = example_reports\<rparr> fs_absent = (Inr (), fs_reports) \<and>
   ensure_directory_exists \<lparr>base_directory = example_reports\<rparr> fs_reports = (Inr (), fs_reports)"
proof -
  have r: "is_dir (Path (root example_reports) []) fs_absent"
    by (simp add: fs_absent_def is_dir_def example_reports_def)
  have nf: "\<forall>k b. fs_absent (Path (root example_reports) (take k (tail example_reports))) \<noteq> Some (File b)"
    by (simp add: fs_absent_def)
  have tree: "\<forall>q. fs_absent q \<noteq> None \<longrightarrow> is_dir (parent q) fs_absent"
    by (simp add: fs_absent_def is_dir_def parent_def)
  have first: "create_directory DefaultFileSystem example_reports fs_absent = (Inr (), fs_reports)"
    by (simp add: DefaultFileSystem_def DefaultFileSystem_create_directory_def example_mkdir_reports)
  note inst = directory_creation_idempotent [of example_reports fs_absent "()" fs_reports fs_reports]
  from inst r nf obtain g where
    g: "create_directory DefaultFileSystem example_reports fs_absent = (Inr (), g)"
    and anc: "(\<forall>q. fs_absent q \<noteq> None \<longrightarrow> is_dir (parent q) fs_absent) \<longrightarrow>
                (\<forall>k. is_dir (Path (root example_reports) (take k (tail example_reports))) g)"
    by blast
  from g first have "g = fs_reports" by simp
  with anc tree have anc': "\<forall>k. is_dir (Path (root example_reports) (take k (tail example_reports))) fs_reports"
    by blast
  from anc' have "is_dir (Path (root example_reports) (take 1 (tail example_reports))) fs_reports"
    and "is_dir (Path (root example_reports) (take 0 (tail example_reports))) fs_reports"
    by blast+
  then have d1: "is_dir (Path ''/'' [''documents'']) fs_reports" and d0: "is_dir (Path ''/'' []) fs_reports"
    by (simp_all add: example_reports_def)
  from inst first have rest:
    "create_directory DefaultFileSystem example_reports fs_reports = (Inr (), fs_reports)"
    "is_dir example_reports fs_reports"
    "ensure_directory_exists \<lparr>base_directory = example_reports\<rparr> fs_absent = (Inr (), fs_reports)"
    "ensure_directory_exists \<lparr>base_directory = example_reports\<rparr> fs_reports = (Inr (), fs_reports)"
    by blast+
  have missing: "fs_absent (Path ''/'' [''documents'']) = None" by (simp add: fs_absent_def)
  from tree have tree': "\<forall>q. fs_absent q = None \<or> is_dir (parent q) fs_absent" by blast
  from r have r': "is_dir (Path ''/'' []) fs_absent" by (simp add: example_reports_def)
  from r' nf tree' missing example_mkdir_reports_no_parents first rest d1 d0 show ?thesis by simp
qed

end
